theory Spec2Isabelle
  imports Complex_Main "HOL-Library.Multiset" "HOL-Library.Log_Nat"
begin

section \<open>The spreadsheet processor \<open>src/utils/fileProcessor.js\<close>\<close>

text \<open>
  The development embeds \<open>extractMarketShareData\<close>, the function that turns the rows of a
  parsed spreadsheet into the ranked chart data, the insight sentences and the metrics of the
  subject brokerage. The schema detection (the first loop of the function), the per-row
  normalisation (the second loop) and the construction of the result are separate
  definitions that follow the source statement by statement.

  Modelling conventions.
  \<^item> A JavaScript value that the function handles is \<open>undefined\<close>, a string, or a number
    (possibly \<open>NaN\<close>): the datatype \<open>jsval\<close>. A spreadsheet cell is such a value, an empty
    cell or an index beyond the end of a row being \<open>undefined\<close>.
  \<^item> A finite number is an IEEE 754 double, represented by the rational that it denotes.
    Every parsed numeral and every product, quotient, sum and difference that the function
    computes is rounded to the nearest double by \<open>toDouble\<close>. A numeric cell is the double
    that the spreadsheet reader delivers. Overflow and the infinities (also the literal
    \<open>Infinity\<close> that \<open>parseFloat\<close> accepts) are outside the model, and so is the sign of
    zero.
  \<^item> Strings are lists of code units below 256. \<open>toLowerCase\<close> maps the capital letters of
    that range; \<open>trim\<close> and the number parsers skip the ASCII blanks and the no-break space.
  \<^item> An exception is a value: \<open>extractMarketShareData\<close> returns \<open>Inl TypeError\<close> where the
    source throws.
  \<^item> A row is an array (possibly empty), which is truthy: the test \<open>!row\<close> at the head of both
    loops never holds and has no counterpart.
  \<^item> \<open>console.log\<close> and \<open>console.warn\<close> have no effect on the result and are left out.
  \<^item> \<open>processFile\<close>, which reads the file, calls \<open>extractMarketShareData\<close> on the rows of
    the first sheet and rejects its promise when the call throws, is not modelled.
\<close>

subsection \<open>Values\<close>

datatype jsval = Undefined | Str string | Num rat | NaN

datatype error = TypeError

type_synonym row = "jsval list"

text \<open>\<open>row[i]\<close>: reading outside the array (also at index \<open>-1\<close>) gives \<open>undefined\<close>.\<close>

definition cellAt :: "row \<Rightarrow> int \<Rightarrow> jsval" where
  "cellAt r i = (if 0 \<le> i \<and> i < int (length r) then r ! nat i else Undefined)"

text \<open>Truthiness, as \<open>if (v)\<close>, \<open>!v\<close> and \<open>a && b\<close> read a value.\<close>

fun truthy :: "jsval \<Rightarrow> bool" where
  "truthy Undefined = False"
| "truthy (Str s) = (s \<noteq> [])"
| "truthy (Num x) = (x \<noteq> 0)"
| "truthy NaN = False"

subsection \<open>Strings\<close>

text \<open>\<open>toLowerCase\<close> on the code units below 256: the letters \<open>A\<close> to \<open>Z\<close> and the
  Latin-1 capitals \<open>0xC0\<close> to \<open>0xDE\<close> (without the multiplication sign \<open>0xD7\<close>) move up by 32.\<close>

definition lowerChar :: "char \<Rightarrow> char" where
  "lowerChar c =
     (let n = (of_char c :: nat) in
      if (65 \<le> n \<and> n \<le> 90) \<or> (192 \<le> n \<and> n \<le> 222 \<and> n \<noteq> 215)
      then char_of (n + 32) else c)"

definition toLowerCase :: "string \<Rightarrow> string" where
  "toLowerCase s = map lowerChar s"

fun startsWith :: "string \<Rightarrow> string \<Rightarrow> bool" where
  "startsWith s [] = True"
| "startsWith [] (p # ps) = False"
| "startsWith (c # cs) (p # ps) = (c = p \<and> startsWith cs ps)"

text \<open>\<open>s.includes(sub)\<close>: \<open>sub\<close> occurs in \<open>s\<close> as a contiguous substring.\<close>

fun str_includes :: "string \<Rightarrow> string \<Rightarrow> bool" where
  "str_includes [] sub = (sub = [])"
| "str_includes (c # cs) sub = (startsWith (c # cs) sub \<or> str_includes cs sub)"

text \<open>White space, as \<open>trim\<close> and \<open>parseFloat\<close> skip it: tab, line feed, vertical tab, form
  feed, carriage return, space and the no-break space \<open>0xA0\<close>.\<close>

definition isSpace :: "char \<Rightarrow> bool" where
  "isSpace c =
     (c \<in> set [CHR 0x09, CHR 0x0A, CHR 0x0B, CHR 0x0C, CHR 0x0D, CHR '' '', CHR 0xA0])"

definition trimStart :: "string \<Rightarrow> string" where
  "trimStart s = dropWhile isSpace s"

definition str_trim :: "string \<Rightarrow> string" where
  "str_trim s = rev (dropWhile isSpace (rev (dropWhile isSpace s)))"

text \<open>\<open>s.replace(/[...]/g, '')\<close> with a character class: the characters of the class are
  deleted.\<close>

definition stripChars :: "string \<Rightarrow> string \<Rightarrow> string" where
  "stripChars cls s = filter (\<lambda>c. c \<notin> set cls) s"

subsection \<open>Double-precision numbers\<close>

text \<open>
  A finite JavaScript number is an IEEE 754 double: zero, or \<open>m * 2^(e - 52)\<close> with
  \<open>2^52 \<le> |m| < 2^53\<close> and \<open>e \<ge> -1022\<close>, or a subnormal \<open>m * 2^(-1074)\<close> with \<open>|m| < 2^52\<close>.
  Every arithmetic operation and every conversion from a decimal numeral gives the double
  nearest to the exact result, the one with the even significand on a tie: \<open>toDouble\<close>.
  With \<open>e\<close> the binary exponent of \<open>|x|\<close> (at least -1022), the doubles around \<open>|x|\<close> are the
  multiples of \<open>2^(e - 52)\<close>.
\<close>

definition roundHalfEven :: "rat \<Rightarrow> int" where
  "roundHalfEven t =
     (let n = \<lfloor>t\<rfloor>; f = t - of_int n in
      if f < 1 / 2 then n else if 1 / 2 < f then n + 1 else if even n then n else n + 1)"

text \<open>The integer \<open>e\<close> with \<open>2^e \<le> a < 2^(e + 1)\<close>, for \<open>a > 0\<close>: the difference of the bit
  lengths of numerator and denominator, or one less.\<close>

definition binaryExponent :: "rat \<Rightarrow> int" where
  "binaryExponent a =
     (let (p, d) = quotient_of a; k = bitlen p - bitlen d in
      if 2 powi k \<le> a then k else k - 1)"

definition toDouble :: "rat \<Rightarrow> rat" where
  "toDouble x =
     (if x = 0 then 0
      else (let a = \<bar>x\<bar>;
                e = max (binaryExponent a) (- 1022);
                u = 2 powi (e - 52);
                r = of_int (roundHalfEven (a / u)) * u
            in if x < 0 then - r else r))"

subsection \<open>Decimal numerals\<close>

definition isDigit :: "char \<Rightarrow> bool" where
  "isDigit c = (c \<in> set ''0123456789'')"

definition digitVal :: "char \<Rightarrow> int" where
  "digitVal c =
     (case map_of (zip ''0123456789'' [0, 1, 2, 3, 4, 5, 6, 7, 8, 9]) c of
        Some d \<Rightarrow> d
      | None \<Rightarrow> 0)"

definition digitChar :: "int \<Rightarrow> char" where
  "digitChar d = ''0123456789'' ! nat (d mod 10)"

definition digitsVal :: "string \<Rightarrow> int" where
  "digitsVal ds = foldl (\<lambda>a c. 10 * a + digitVal c) 0 ds"

text \<open>The decimal digits of a natural number. (Integers are used for the numbers that can
  be large.)\<close>

function showNat :: "int \<Rightarrow> string" where
  "showNat n = (if n < 10 then [digitChar n] else showNat (n div 10) @ [digitChar (n mod 10)])"
  by pat_completeness auto
termination
  by (relation "measure nat") auto

declare showNat.simps [simp del]

text \<open>
  The numeral at the start of a string, as \<open>parseFloat\<close> reads it (the grammar
  \<open>StrDecimalLiteral\<close> without \<open>Infinity\<close>): an optional sign, digits with an optional
  fraction (or a fraction alone), and an exponent if it is complete. The result is the value
  and the rest of the string, or \<open>None\<close> when no numeral starts the string.
\<close>

definition scanSign :: "string \<Rightarrow> rat \<times> string" where
  "scanSign s =
     (case s of
        [] \<Rightarrow> (1, [])
      | c # t \<Rightarrow> if c = CHR ''-'' then (- 1, t) else if c = CHR ''+'' then (1, t) else (1, s))"

definition scanExponent :: "string \<Rightarrow> int \<times> string" where
  "scanExponent s =
     (case s of
        [] \<Rightarrow> (0, [])
      | c # t \<Rightarrow>
          if c = CHR ''e'' \<or> c = CHR ''E'' then
            (let (sg, t') = scanSign t; ds = takeWhile isDigit t' in
             if ds = [] then (0, s)
             else ((if sg < 0 then - digitsVal ds else digitsVal ds),
                   dropWhile isDigit t'))
          else (0, s))"

definition scanDecimal :: "string \<Rightarrow> (rat \<times> string) option" where
  "scanDecimal s =
     (let (sg, r0) = scanSign s;
          ip = takeWhile isDigit r0;
          r1 = dropWhile isDigit r0;
          (fp, r2) = (case r1 of
                        [] \<Rightarrow> ([], [])
                      | c # t \<Rightarrow> if c = CHR ''.'' then (takeWhile isDigit t, dropWhile isDigit t)
                                else ([], r1))
      in if ip = [] \<and> fp = [] then None
         else (let m = of_int (digitsVal ip) + of_int (digitsVal fp) / 10 ^ length fp;
                   (ex, r3) = scanExponent r2
               in Some (sg * m * (if 0 \<le> ex then 10 ^ nat ex else 1 / 10 ^ nat (- ex)), r3)))"

text \<open>\<open>parseFloat(s)\<close>: leading white space is skipped, what follows the numeral is
  ignored, and a string that starts with no numeral gives \<open>NaN\<close>.\<close>

definition parseFloat :: "string \<Rightarrow> jsval" where
  "parseFloat s =
     (case scanDecimal (trimStart s) of Some (v, rest) \<Rightarrow> Num (toDouble v) | None \<Rightarrow> NaN)"

text \<open>\<open>parseInt(s, 10)\<close>: leading white space, an optional sign and decimal digits.\<close>

definition parseInt :: "string \<Rightarrow> jsval" where
  "parseInt s =
     (let (sg, r) = scanSign (trimStart s); ds = takeWhile isDigit r in
      if ds = [] then NaN else Num (toDouble (sg * of_int (digitsVal ds))))"

text \<open>\<open>Number(s)\<close> on a string, which \<open>isNaN(s)\<close> and \<open>s > 0\<close> apply: the trimmed string is
  empty (zero) or a decimal numeral as a whole. Hexadecimal, octal and binary literals are
  not modelled; the function only meets strings that \<open>toFixed\<close> produced.\<close>

definition stringToNumber :: "string \<Rightarrow> jsval" where
  "stringToNumber s =
     (let t = str_trim s in
      if t = [] then Num 0
      else (case scanDecimal t of
              Some (v, rest) \<Rightarrow> if rest = [] then Num (toDouble v) else NaN
            | None \<Rightarrow> NaN))"

fun toNumber :: "jsval \<Rightarrow> jsval" where
  "toNumber Undefined = NaN"
| "toNumber (Str s) = stringToNumber s"
| "toNumber (Num x) = Num x"
| "toNumber NaN = NaN"

definition isNaN :: "jsval \<Rightarrow> bool" where
  "isNaN v = (toNumber v = NaN)"

text \<open>
  \<open>x.toFixed(f)\<close>: with \<open>n\<close> the integer nearest to \<open>|x| * 10^f\<close> (the larger one on a tie),
  the digits of \<open>n\<close>, padded with zeros to \<open>f + 1\<close> digits, with a point before the last \<open>f\<close>
  digits, after a minus sign when \<open>x < 0\<close>. (From \<open>10^21\<close> on JavaScript prints exponent
  notation; the model prints the digits.)
\<close>

definition roundHalfUp :: "rat \<Rightarrow> int" where
  "roundHalfUp a = \<lfloor>a + 1 / 2\<rfloor>"

definition toFixed :: "nat \<Rightarrow> rat \<Rightarrow> string" where
  "toFixed f x =
     (let s = (if x < 0 then ''-'' else '''');
          n = roundHalfUp (\<bar>x\<bar> * 10 ^ f);
          m = showNat n
      in if f = 0 then s @ m
         else (let m' = replicate (f + 1 - length m) CHR ''0'' @ m;
                   k = length m'
               in s @ take (k - f) m' @ ''.'' @ drop (k - f) m'))"

text \<open>\<open>x\<close> rounded to one decimal, half away from zero: the number whose numeral
  \<open>x.toFixed(1)\<close> prints. \<open>parseFloat(x.toFixed(1))\<close> and \<open>Number(x.toFixed(1))\<close> are the
  double nearest to it (lemma \<open>parseFloat_toFixed1\<close> below).\<close>

definition round1 :: "rat \<Rightarrow> rat" where
  "round1 x = (if x < 0 then - (of_int (roundHalfUp (\<bar>x\<bar> * 10)) / 10)
               else of_int (roundHalfUp (\<bar>x\<bar> * 10)) / 10)"

text \<open>\<open>x.toString()\<close> for a number in a brand cell: the decimal expansion, the fraction cut
  after 20 digits. (JavaScript prints the shortest digits that identify the double, and
  exponent notation for very large and very small numbers.) The function calls \<open>toString\<close>
  on a truthy brand cell only, that is on a non-empty string or a non-zero number; the
  equation for \<open>undefined\<close>, on which the call would throw, is never used.\<close>

fun fracDigits :: "nat \<Rightarrow> rat \<Rightarrow> string" where
  "fracDigits 0 q = []"
| "fracDigits (Suc k) q =
     (if q = 0 then []
      else (let d = \<lfloor>q * 10\<rfloor> in digitChar d # fracDigits k (q * 10 - of_int d)))"

definition numberToString :: "rat \<Rightarrow> string" where
  "numberToString x =
     (let a = \<bar>x\<bar>; ip = \<lfloor>a\<rfloor>; q = a - of_int ip in
      (if x < 0 then ''-'' else '''') @ showNat ip @
      (if q = 0 then [] else CHR ''.'' # fracDigits 20 q))"

fun toString :: "jsval \<Rightarrow> string" where
  "toString (Str s) = s"
| "toString (Num x) = numberToString x"
| "toString NaN = ''NaN''"
| "toString Undefined = ''undefined''"

text \<open>\<open>new Intl.NumberFormat('en-US', {style: 'currency', currency: 'USD',
  maximumFractionDigits: 0}).format(x)\<close>: the amount rounded to an integer (half away from
  zero), its digits grouped in threes, after the dollar sign.\<close>

fun groupRev :: "string \<Rightarrow> string" where
  "groupRev (a # b # c # d # ds) = a # b # c # CHR '','' # groupRev (d # ds)"
| "groupRev ds = ds"

definition groupThousands :: "string \<Rightarrow> string" where
  "groupThousands ds = rev (groupRev (rev ds))"

definition formatCurrency :: "rat \<Rightarrow> string" where
  "formatCurrency x =
     (if x < 0 then ''-'' else '''') @ ''$'' @ groupThousands (showNat (roundHalfUp \<bar>x\<bar>))"

subsection \<open>Schema detection\<close>

text \<open>The column indices that the first loop of \<open>extractMarketShareData\<close> settles, with the
  names of its variables.\<close>

record ColumnMap =
  brandColIndex :: int
  marketShareColIndex :: int
  totalSalesColIndex :: int
  avgPriceColIndex :: int
  domColIndex :: int
  pricePerSqftColIndex :: int
  closedListRatioColIndex :: int
  totalOfficesColIndex :: int
  contributingAgentsColIndex :: int

definition defaultColumns :: ColumnMap where
  "defaultColumns =
     \<lparr>brandColIndex = 1, marketShareColIndex = 12, totalSalesColIndex = 6,
      avgPriceColIndex = 10, domColIndex = 9, pricePerSqftColIndex = - 1,
      closedListRatioColIndex = - 1, totalOfficesColIndex = 19,
      contributingAgentsColIndex = 19\<rparr>"

text \<open>The tests on the lower-cased text of a header cell, one per field.\<close>

definition isMktPercentHeader :: "string \<Rightarrow> bool" where
  "isMktPercentHeader t =
     (t = ''mkt %'' \<or> (str_includes t ''market'' \<and> str_includes t ''%''))"

definition isVolPerAgentHeader :: "string \<Rightarrow> bool" where
  "isVolPerAgentHeader t =
     (str_includes t ''$ vol per prod agent'' \<or> str_includes t ''vol per prod''
      \<or> str_includes t ''per agent'')"

definition isBrandHeader :: "string \<Rightarrow> bool" where
  "isBrandHeader t =
     (str_includes t ''brand'' \<or> str_includes t ''company'' \<or> str_includes t ''brokerage''
      \<or> str_includes t ''firm'' \<or> t = ''name'')"

definition isTotalSalesHeader :: "string \<Rightarrow> bool" where
  "isTotalSalesHeader t =
     (t = ''total #'' \<or> (str_includes t ''total'' \<and> str_includes t ''#''))"

definition isAvgPriceHeader :: "string \<Rightarrow> bool" where
  "isAvgPriceHeader t =
     (t = ''avg price'' \<or> (str_includes t ''avg'' \<and> str_includes t ''price'')
      \<or> (str_includes t ''average'' \<and> str_includes t ''sales''))"

definition isDomHeader :: "string \<Rightarrow> bool" where
  "isDomHeader t =
     (t = ''dom'' \<or> str_includes t ''days on market''
      \<or> (str_includes t ''days'' \<and> str_includes t ''market''))"

definition isPricePerSqftHeader :: "string \<Rightarrow> bool" where
  "isPricePerSqftHeader t =
     (t = ''price/sqft'' \<or> str_includes t ''price per sq'' \<or> str_includes t ''price/sq''
      \<or> str_includes t ''price per foot''
      \<or> (str_includes t ''price'' \<and> str_includes t ''sqft''))"

definition isClosedListHeader :: "string \<Rightarrow> bool" where
  "isClosedListHeader t =
     (t = ''closed/list price'' \<or> (str_includes t ''closed'' \<and> str_includes t ''list'')
      \<or> (str_includes t ''sale'' \<and> str_includes t ''list''))"

definition isTotalOfficesHeader :: "string \<Rightarrow> bool" where
  "isTotalOfficesHeader t =
     (t = ''# offices'' \<or> t = ''total offices''
      \<or> (str_includes t ''office'' \<and> (str_includes t ''total'' \<or> str_includes t ''#'')))"

definition isContributingAgentsHeader :: "string \<Rightarrow> bool" where
  "isContributingAgentsHeader t =
     (t = ''contributing agents''
      \<or> (str_includes t ''contributing'' \<and> str_includes t ''agent''))"

text \<open>The three tiers of the generic market-share test; each of them sets the column.\<close>

definition isMarketShareHeader :: "string \<Rightarrow> bool" where
  "isMarketShareHeader t =
     (if t = ''market share (#)'' \<or> t = ''market share (%)'' then True
      else if str_includes t ''market share'' \<or> str_includes t ''mkt share'' then True
      else (str_includes t ''share'' \<or> str_includes t ''percentage'' \<or> str_includes t ''%''))"

text \<open>The check of column I (index 8), first in the body of the row loop.\<close>

definition checkColumnI :: "row \<Rightarrow> ColumnMap \<Rightarrow> ColumnMap" where
  "checkColumnI r cm =
     (if 8 < length r then
        (case r ! 8 of
           Str s \<Rightarrow>
             if s \<noteq> [] \<and> isMktPercentHeader (toLowerCase s)
             then cm\<lparr>marketShareColIndex := 8\<rparr> else cm
         | _ \<Rightarrow> cm)
      else cm)"

text \<open>The check of column M (index 12), skipped once the column is 8.\<close>

definition checkColumnM :: "row \<Rightarrow> ColumnMap \<Rightarrow> ColumnMap" where
  "checkColumnM r cm =
     (if marketShareColIndex cm \<noteq> 8 \<and> 12 < length r then
        (case r ! 12 of
           Str s \<Rightarrow>
             if s \<noteq> [] \<and> isVolPerAgentHeader (toLowerCase s)
             then cm\<lparr>marketShareColIndex := 12\<rparr> else cm
         | _ \<Rightarrow> cm)
      else cm)"

text \<open>The body of the inner loop, for the cell at index \<open>j\<close>: a sequence of independent
  \<open>if\<close> statements, the last one guarded by the current market-share column.\<close>

definition scanCell :: "nat \<Rightarrow> jsval \<Rightarrow> ColumnMap \<Rightarrow> ColumnMap" where
  "scanCell j cell cm =
     (case cell of
        Str s \<Rightarrow>
          if s = [] then cm
          else
            (let t = toLowerCase s;
                 cm1 = (if isBrandHeader t then cm\<lparr>brandColIndex := int j\<rparr> else cm);
                 cm2 = (if isTotalSalesHeader t then cm1\<lparr>totalSalesColIndex := int j\<rparr> else cm1);
                 cm3 = (if isAvgPriceHeader t then cm2\<lparr>avgPriceColIndex := int j\<rparr> else cm2);
                 cm4 = (if isDomHeader t then cm3\<lparr>domColIndex := int j\<rparr> else cm3);
                 cm5 = (if isPricePerSqftHeader t then cm4\<lparr>pricePerSqftColIndex := int j\<rparr>
                        else cm4);
                 cm6 = (if isClosedListHeader t then cm5\<lparr>closedListRatioColIndex := int j\<rparr>
                        else cm5);
                 cm7 = (if isTotalOfficesHeader t then cm6\<lparr>totalOfficesColIndex := int j\<rparr>
                        else cm6);
                 cm8 = (if isContributingAgentsHeader t
                        then cm7\<lparr>contributingAgentsColIndex := int j\<rparr> else cm7)
             in if marketShareColIndex cm8 \<noteq> 8 \<and> marketShareColIndex cm8 \<noteq> 12 then
                  (if isMarketShareHeader t then cm8\<lparr>marketShareColIndex := int j\<rparr> else cm8)
                else cm8)
      | _ \<Rightarrow> cm)"

text \<open>\<open>for (let j = 0; j < row.length; j++)\<close>, from index \<open>j\<close> on.\<close>

fun scanCells :: "nat \<Rightarrow> row \<Rightarrow> ColumnMap \<Rightarrow> ColumnMap" where
  "scanCells j [] cm = cm"
| "scanCells j (c # cs) cm = scanCells (Suc j) cs (scanCell j c cm)"

definition scanRow :: "row \<Rightarrow> ColumnMap \<Rightarrow> ColumnMap" where
  "scanRow r cm = scanCells 0 r (checkColumnM r (checkColumnI r cm))"

text \<open>\<open>for (let i = 0; i < Math.min(10, data.length); i++)\<close>: the first ten rows, in order.\<close>

definition detectColumns :: "row list \<Rightarrow> ColumnMap" where
  "detectColumns data = fold scanRow (take 10 data) defaultColumns"

subsection \<open>Row extraction\<close>

record Brokerage =
  brand :: string
  marketShare :: rat

text \<open>The variables that the second loop updates: the list \<open>brokerages\<close> and the seven
  metrics of the subject row.\<close>

record Locals =
  brokerages :: "Brokerage list"
  totalSales :: rat
  avgPrice :: rat
  daysOnMarket :: rat
  pricePerSqft :: rat
  closedListRatio :: rat
  totalOffices :: rat
  contributingAgents :: rat

definition initialLocals :: Locals where
  "initialLocals =
     \<lparr>brokerages = [], totalSales = 0, avgPrice = 0, daysOnMarket = 0, pricePerSqft = 0,
      closedListRatio = 0, totalOffices = 0, contributingAgents = 0\<rparr>"

text \<open>The coercion of the market-share cell: a string loses \<open>%\<close>, \<open>$\<close> and \<open>,\<close> and goes
  through \<open>parseFloat\<close>; a number below 1 is multiplied by 100; anything else is left.\<close>

definition coerceMarketShare :: "jsval \<Rightarrow> jsval" where
  "coerceMarketShare v =
     (case v of
        Str s \<Rightarrow> parseFloat (stripChars ''%$,'' s)
      | Num x \<Rightarrow> if x < 1 then Num (toDouble (x * 100)) else Num x
      | _ \<Rightarrow> v)"

text \<open>The range check: a number above 1000 is replaced by \<open>(marketShare / 1000).toFixed(1)\<close>,
  which is a string.\<close>

definition rescaleMarketShare :: "jsval \<Rightarrow> jsval" where
  "rescaleMarketShare v =
     (if isNaN v then v
      else (case v of
              Num x \<Rightarrow> if 100 < x
                       then (if 1000 < x then Str (toFixed 1 (toDouble (x / 1000))) else Num x)
                       else Num x
            | _ \<Rightarrow> v))"

text \<open>One metric of the subject row: a cell that is not \<open>undefined\<close> is parsed if it is a
  string, and replaces the old value unless it is \<open>NaN\<close>.\<close>

definition readMetric :: "(string \<Rightarrow> jsval) \<Rightarrow> jsval \<Rightarrow> rat \<Rightarrow> rat" where
  "readMetric parse cell old =
     (if cell = Undefined then old
      else (let v = (case cell of Str s \<Rightarrow> parse s | _ \<Rightarrow> cell) in
            if isNaN v then old else (case v of Num x \<Rightarrow> x | _ \<Rightarrow> old)))"

definition parsePlain :: "string \<Rightarrow> jsval" where
  "parsePlain s = parseFloat (stripChars '',$'' s)"

definition parsePercent :: "string \<Rightarrow> jsval" where
  "parsePercent s = parseFloat (stripChars ''%$,'' s)"

definition parseCount :: "string \<Rightarrow> jsval" where
  "parseCount s = parseInt (stripChars '',$'' s)"

text \<open>The closed/list ratio is stored as a percentage: a value below 1 is multiplied by 100.\<close>

definition readRatio :: "jsval \<Rightarrow> rat \<Rightarrow> rat" where
  "readRatio cell old =
     (if cell = Undefined then old
      else (let v = (case cell of Str s \<Rightarrow> parsePercent s | _ \<Rightarrow> cell) in
            if isNaN v then old
            else (case v of Num x \<Rightarrow> if x < 1 then toDouble (x * 100) else x | _ \<Rightarrow> old)))"

text \<open>The body of the \<open>if\<close> that recognises the subject row.\<close>

definition extractMetrics :: "ColumnMap \<Rightarrow> row \<Rightarrow> Locals \<Rightarrow> Locals" where
  "extractMetrics cm r st =
     st\<lparr>totalSales := readMetric parsePlain (cellAt r (totalSalesColIndex cm)) (totalSales st),
        avgPrice := readMetric parsePlain (cellAt r (avgPriceColIndex cm)) (avgPrice st),
        daysOnMarket := readMetric parsePlain (cellAt r (domColIndex cm)) (daysOnMarket st),
        pricePerSqft :=
          readMetric parsePlain (cellAt r (pricePerSqftColIndex cm)) (pricePerSqft st),
        closedListRatio := readRatio (cellAt r (closedListRatioColIndex cm)) (closedListRatio st),
        totalOffices :=
          readMetric parseCount (cellAt r (totalOfficesColIndex cm)) (totalOffices st),
        contributingAgents :=
          readMetric parseCount (cellAt r (contributingAgentsColIndex cm))
            (contributingAgents st)\<rparr>"

text \<open>The last statement of the loop body. A number is pushed as
  \<open>parseFloat(marketShare.toFixed(1))\<close>, which is a number again (lemma
  \<open>parseFloat_toFixed1\<close>; the last case of the inner distinction never occurs); a string
  that is not \<open>NaN\<close> has no method \<open>toFixed\<close>, and the call throws a \<open>TypeError\<close>.\<close>

definition pushBrokerage :: "jsval \<Rightarrow> jsval \<Rightarrow> Locals \<Rightarrow> error + Locals" where
  "pushBrokerage b ms st =
     (if isNaN ms then Inr st
      else (case ms of
              Num x \<Rightarrow>
                (case parseFloat (toFixed 1 x) of
                   Num y \<Rightarrow>
                     Inr (st\<lparr>brokerages := brokerages st @
                            [\<lparr>brand = str_trim (toString b), marketShare = y\<rparr>]\<rparr>)
                 | _ \<Rightarrow> Inr st)
            | _ \<Rightarrow> Inl TypeError))"

text \<open>The body of the second loop for one row.\<close>

definition processRow :: "ColumnMap \<Rightarrow> row \<Rightarrow> Locals \<Rightarrow> error + Locals" where
  "processRow cm r st =
     (if int (length r) \<le> max (brandColIndex cm) (marketShareColIndex cm) then Inr st
      else
        (let b = cellAt r (brandColIndex cm);
             ms0 = cellAt r (marketShareColIndex cm)
         in if \<not> truthy b then Inr st
            else
              (let ms = rescaleMarketShare (coerceMarketShare ms0);
                   brandLower = toLowerCase (toString b);
                   st1 = (if str_includes brandLower ''sotheby'' \<and>
                             max (max (totalSalesColIndex cm) (avgPriceColIndex cm))
                               (domColIndex cm) < int (length r)
                          then extractMetrics cm r st else st)
               in pushBrokerage b ms st1)))"

text \<open>\<open>for (let i = 1; i < data.length; i++)\<close>: the rows in order; an exception ends the
  loop.\<close>

fun processRows :: "ColumnMap \<Rightarrow> row list \<Rightarrow> Locals \<Rightarrow> error + Locals" where
  "processRows cm [] st = Inr st"
| "processRows cm (r # rs) st =
     (case processRow cm r st of
        Inl e \<Rightarrow> Inl e
      | Inr st' \<Rightarrow> processRows cm rs st')"

subsection \<open>Ranking and the result\<close>

text \<open>\<open>brokerages.sort((a, b) => b.marketShare - a.marketShare)\<close>: a stable sort, largest
  share first.\<close>

definition sortByShare :: "Brokerage list \<Rightarrow> Brokerage list" where
  "sortByShare bs = sort_key (\<lambda>b. - marketShare b) bs"

definition sothebysLabel :: string where
  "sothebysLabel = ''Russ Lyon Sotheby's International Realty''"

text \<open>The renaming pass: both tests read the lower-cased original brand.\<close>

definition renameBrand :: "Brokerage \<Rightarrow> Brokerage" where
  "renameBrand b =
     (let brandLower = toLowerCase (brand b);
          b1 = (if str_includes brandLower ''sotheby'' then b\<lparr>brand := sothebysLabel\<rparr> else b)
      in if str_includes brandLower ''homesmart'' \<or> str_includes brandLower ''home smart''
         then b1\<lparr>brand := ''HomeSmart''\<rparr> else b1)"

definition rankBrokerages :: "Brokerage list \<Rightarrow> Brokerage list" where
  "rankBrokerages bs = sortByShare (map renameBrand (sortByShare bs))"

text \<open>\<open>xs.findIndex(p)\<close>: the first index whose element satisfies \<open>p\<close>, or \<open>-1\<close>.\<close>

fun findIndexFrom :: "nat \<Rightarrow> ('a \<Rightarrow> bool) \<Rightarrow> 'a list \<Rightarrow> int" where
  "findIndexFrom i p [] = - 1"
| "findIndexFrom i p (x # xs) = (if p x then int i else findIndexFrom (Suc i) p xs)"

definition findIndex :: "('a \<Rightarrow> bool) \<Rightarrow> 'a list \<Rightarrow> int" where
  "findIndex p xs = findIndexFrom 0 p xs"

text \<open>\<open>index >= 0 ? dataValues[index] : 0\<close>: the share at the index that \<open>findIndex\<close> found
  in the labels (which are as many as the values), or 0.\<close>

definition shareAt :: "rat list \<Rightarrow> int \<Rightarrow> rat" where
  "shareAt vs i = (if 0 \<le> i then vs ! nat i else 0)"

text \<open>The bar colours: the house blue for the subject, a grey that gets lighter with the
  rank for the others.\<close>

fun colorsFrom :: "nat \<Rightarrow> string list \<Rightarrow> string list" where
  "colorsFrom i [] = []"
| "colorsFrom i (l # ls) =
     (if str_includes l ''Sotheby's'' then ''#002349''
      else (let g = showNat (min (90 + int i * 18) 210) in
            ''rgba('' @ g @ '', '' @ g @ '', '' @ g @ '', 1)'')) # colorsFrom (Suc i) ls"

text \<open>\<open>s > 0\<close> for a value \<open>s\<close>, which is converted to a number.\<close>

definition isPositive :: "jsval \<Rightarrow> bool" where
  "isPositive v = (case toNumber v of Num x \<Rightarrow> 0 < x | _ \<Rightarrow> False)"

record Insights =
  title :: string
  description :: string
  summary :: "string list"

record AdditionalMetrics =
  am_totalSales :: rat
  am_averagePrice :: string
  am_daysOnMarket :: rat
  am_totalOffices :: rat
  am_contributingAgents :: rat
  am_pricePerSqft :: "string option"
  am_closedListRatio :: "string option"

text \<open>The returned object; \<open>dataValues\<close> and \<open>backgroundColor\<close> are the two fields of the
  single data set.\<close>

record Result =
  labels :: "string list"
  dataValues :: "rat list"
  backgroundColor :: "string list"
  insights :: Insights
  additionalMetrics :: AdditionalMetrics

definition sharePointDiff :: "rat \<Rightarrow> rat \<Rightarrow> string" where
  "sharePointDiff sothebysShare homeSmartShare =
     toFixed 1 (toDouble (sothebysShare - homeSmartShare))"

definition top3Sum :: "Brokerage list \<Rightarrow> rat" where
  "top3Sum bs = foldl (\<lambda>sum b. toDouble (sum + marketShare b)) 0 (take 3 bs)"

definition makeInsights :: "Brokerage list \<Rightarrow> string list \<Rightarrow> rat list \<Rightarrow> Insights" where
  "makeInsights bs ls vs =
     (let sothebysShare = shareAt vs (findIndex (\<lambda>l. str_includes l ''Sotheby's'') ls);
          homeSmartShare = shareAt vs (findIndex (\<lambda>l. l = ''HomeSmart'') ls);
          d = sharePointDiff sothebysShare homeSmartShare
      in \<lparr>title = ''Russ Lyon Sotheby's International Realty Market Share Analysis'',
          description = ''Analysis based on brand and market share data from your spreadsheet'',
          summary =
            [''Russ Lyon Sotheby's International Realty has '' @ toFixed 1 sothebysShare
               @ ''% market share'',
             (if 0 < homeSmartShare
              then d @ '' percentage points ''
                   @ (if isPositive (Str d) then ''ahead of'' else ''behind'')
                   @ '' nearest competitor (HomeSmart at '' @ toFixed 1 homeSmartShare @ ''%)''
              else ''Leading position in the market''),
             ''Position in the Arizona luxury real estate market'',
             ''Top 3 brokerages control '' @ toFixed 1 (top3Sum bs) @ ''% of the market'']\<rparr>)"

definition makeMetrics :: "Locals \<Rightarrow> AdditionalMetrics" where
  "makeMetrics st =
     \<lparr>am_totalSales = totalSales st,
      am_averagePrice = formatCurrency (avgPrice st),
      am_daysOnMarket =
        (case stringToNumber (toFixed 1 (daysOnMarket st)) of
           Num y \<Rightarrow> y
         | _ \<Rightarrow> daysOnMarket st),
      am_totalOffices = totalOffices st,
      am_contributingAgents = contributingAgents st,
      am_pricePerSqft =
        (if 0 < pricePerSqft st then Some (''$'' @ toFixed 0 (pricePerSqft st)) else None),
      am_closedListRatio =
        (if 0 < closedListRatio st then Some (toFixed 1 (closedListRatio st) @ ''%'')
         else None)\<rparr>"

definition makeResult :: "Locals \<Rightarrow> Result" where
  "makeResult st =
     (let bs = rankBrokerages (brokerages st);
          ls = map brand (take 10 bs);
          vs = map marketShare (take 10 bs)
      in \<lparr>labels = ls, dataValues = vs, backgroundColor = colorsFrom 0 ls,
          insights = makeInsights bs ls vs, additionalMetrics = makeMetrics st\<rparr>)"

definition extractMarketShareData :: "row list \<Rightarrow> error + Result" where
  "extractMarketShareData data =
     (case processRows (detectColumns data) (drop 1 data) initialLocals of
        Inl e \<Rightarrow> Inl e
      | Inr st \<Rightarrow> Inr (makeResult st))"

subsection \<open>The formulas of the specification\<close>

text \<open>
  Two derived metrics, written after the words of the specification (section 4.2, step 5) and
  not after the code, to be compared with what \<open>makeInsights\<close> reports:
  \<open>top3Concentration = round(sum(top 3 shares) / sum(all shares) * 100, 1)\<close>, and
  \<open>gap = round(leaderShare - runnerUpShare, 1)\<close> where \<open>leaderShare\<close> is the share of the
  record whose brand matches the subject and \<open>runnerUpShare\<close> the share of the highest-ranked
  record whose brand does not.
\<close>

definition spec_top3Concentration :: "rat list \<Rightarrow> rat" where
  "spec_top3Concentration shares =
     round1 (sum_list (take 3 (rev (sort shares))) / sum_list shares * 100)"

definition spec_gap :: "string list \<Rightarrow> rat list \<Rightarrow> rat" where
  "spec_gap ls vs =
     round1 (shareAt vs (findIndex (\<lambda>l. str_includes l ''Sotheby's'') ls)
             - shareAt vs (findIndex (\<lambda>l. \<not> str_includes l ''Sotheby's'') ls))"

subsection \<open>Observations and sample sheets\<close>

text \<open>The market shares of the records that the row loop accepted, in the order of the
  rows, and the sentences of the summary, the labels and the values of the result; each is
  empty when the function throws.\<close>

definition acceptedShares :: "row list \<Rightarrow> rat list" where
  "acceptedShares data =
     (case processRows (detectColumns data) (drop 1 data) initialLocals of
        Inl e \<Rightarrow> []
      | Inr st \<Rightarrow> map marketShare (brokerages st))"

definition summaryOf :: "row list \<Rightarrow> string list" where
  "summaryOf data =
     (case extractMarketShareData data of
        Inl e \<Rightarrow> []
      | Inr res \<Rightarrow> summary (insights res))"

definition rankedLabels :: "row list \<Rightarrow> string list" where
  "rankedLabels data =
     (case extractMarketShareData data of
        Inl e \<Rightarrow> []
      | Inr res \<Rightarrow> labels res)"

definition rankedValues :: "row list \<Rightarrow> rat list" where
  "rankedValues data =
     (case extractMarketShareData data of
        Inl e \<Rightarrow> []
      | Inr res \<Rightarrow> dataValues res)"

text \<open>A row of the newer format: the brand in column B (index 1), the share in column I
  (index 8); and one of the older format, with the share in column M (index 12).\<close>

definition mktRow :: "string \<Rightarrow> jsval \<Rightarrow> row" where
  "mktRow b v = [Str '''', Str b] @ replicate 6 Undefined @ [v]"

definition volRow :: "string \<Rightarrow> jsval \<Rightarrow> row" where
  "volRow b v = [Str '''', Str b] @ replicate 10 Undefined @ [v]"

definition sheetGap :: "row list" where
  "sheetGap =
     [mktRow ''Brand'' (Str ''Mkt %''),
      mktRow ''Sotheby's Realty'' (Str ''15.6%''),
      mktRow ''Realty ONE Group'' (Str ''12.0%''),
      mktRow ''HomeSmart'' (Str ''9.0%'')]"

definition sheetNoHomeSmart :: "row list" where
  "sheetNoHomeSmart =
     [mktRow ''Brand'' (Str ''Mkt %''),
      mktRow ''Sotheby's Realty'' (Str ''15.6%''),
      mktRow ''Realty ONE Group'' (Str ''20.0%'')]"

definition sheetTop3 :: "row list" where
  "sheetTop3 =
     [mktRow ''Brand'' (Str ''Mkt %''),
      mktRow ''Alpha Realty'' (Str ''30%''),
      mktRow ''Beta Homes'' (Str ''20%''),
      mktRow ''Gamma Group'' (Str ''10%''),
      mktRow ''Delta Estates'' (Str ''5%'')]"

definition sheetRescaled :: "row list" where
  "sheetRescaled =
     [[Str '''', Str ''Brand''],
      volRow ''Acme Realty'' (Num 1560)]"

definition sheetOutOfRange :: "row list" where
  "sheetOutOfRange =
     [mktRow ''Brand'' (Str ''Mkt %''),
      mktRow ''Acme Realty'' (Str ''1,560''),
      mktRow ''HomeSmart'' (Str ''9.0%'')]"

definition sheetMalformed :: "row list" where
  "sheetMalformed =
     [mktRow ''Brand'' (Str ''Mkt %''),
      mktRow '''' (Str ''11.0%''),
      mktRow ''Acme Realty'' (Str ''n/a''),
      [Str '''', Str ''Short Row Realty''],
      mktRow ''HomeSmart'' (Str ''9.0%'')]"

definition sheetGeneric :: "row list" where
  "sheetGeneric =
     [[Str '''', Str ''Brand'', Str ''Market Share (%)''],
      [Str '''', Str ''HomeSmart'', Str ''9.0%'']]"

definition sheetBothHeaders :: "row list" where
  "sheetBothHeaders =
     [volRow ''Brand'' (Str ''$ Vol Per Prod Agent''),
      mktRow ''Brand'' (Str ''MKT %'')]"

text \<open>A subject row of nine cells with a sales count in column G (index 6): shorter than
  the default average-price column (index 10) requires.\<close>

definition subjectShortRow :: row where
  "subjectShortRow =
     [Str '''', Str ''Sotheby's Realty'', Undefined, Undefined, Undefined, Undefined,
      Num 321, Undefined, Str ''15.6%'']"

definition columnsI :: ColumnMap where
  "columnsI = defaultColumns\<lparr>marketShareColIndex := 8\<rparr>"

section \<open>Properties\<close>

subsection \<open>Rounding to a double\<close>



lemma toDouble_zero: "toDouble 0 = 0"
  by (simp add: toDouble_def)



subsection \<open>Printing and reading a number with one decimal\<close>

lemma digit_table:
  assumes "k < 10"
  shows "isDigit (''0123456789'' ! k) \<and> digitVal (''0123456789'' ! k) = int k
         \<and> ''0123456789'' ! k \<noteq> CHR ''-'' \<and> ''0123456789'' ! k \<noteq> CHR ''+''
         \<and> \<not> isSpace (''0123456789'' ! k)"
proof -
  have "k \<in> {0, 1, 2, 3, 4, 5, 6, 7, 8, 9}" using assms by auto
  then show ?thesis
    by (elim insertE emptyE) (simp_all add: isDigit_def digitVal_def isSpace_def)
qed

lemma digitChar_props:
  "isDigit (digitChar d)" "digitVal (digitChar d) = d mod 10"
  "digitChar d \<noteq> CHR ''-''" "digitChar d \<noteq> CHR ''+''" "\<not> isSpace (digitChar d)"
proof -
  have "nat (d mod 10) < 10" by simp
  from digit_table[OF this] show "isDigit (digitChar d)" "digitVal (digitChar d) = d mod 10"
  "digitChar d \<noteq> CHR ''-''" "digitChar d \<noteq> CHR ''+''" "\<not> isSpace (digitChar d)"
    by (simp_all add: digitChar_def)
qed

lemma showNat_nonempty: "showNat n \<noteq> []"
  by (subst showNat.simps) simp

lemma showNat_all_digits: "\<forall>c \<in> set (showNat n). isDigit c"
proof (induction n rule: showNat.induct)
  case (1 n)
  show ?case
  proof (cases "n < 10")
    case True
    then show ?thesis by (subst showNat.simps) (simp add: digitChar_props)
  next
    case False
    with 1 show ?thesis by (subst showNat.simps) (simp add: digitChar_props)
  qed
qed

lemma digitsVal_snoc: "digitsVal (ds @ [c]) = 10 * digitsVal ds + digitVal c"
  by (simp add: digitsVal_def)

text \<open>Reading the digits of a number gives the number back.\<close>

lemma digitsVal_showNat: "0 \<le> n \<Longrightarrow> digitsVal (showNat n) = n"
proof (induction n rule: showNat.induct)
  case (1 n)
  show ?case
  proof (cases "n < 10")
    case True
    with 1(2) show ?thesis
      by (subst showNat.simps) (simp add: digitsVal_def digitChar_props)
  next
    case False
    with 1 have "digitsVal (showNat (n div 10)) = n div 10" by simp
    with False show ?thesis
      by (subst showNat.simps) (simp add: digitsVal_snoc digitChar_props)
  qed
qed

lemma showNat_hd: "\<exists>c cs. showNat n = c # cs \<and> isDigit c"
proof -
  obtain c cs where "showNat n = c # cs" using showNat_nonempty by (cases "showNat n") auto
  moreover from this showNat_all_digits[of n] have "isDigit c" by simp
  ultimately show ?thesis by blast
qed

text \<open>The shape of \<open>x.toFixed(1)\<close>: a sign, the digits of the tenths divided by ten, a
  point, and the last digit.\<close>

lemma toFixed1_eq:
  "toFixed (Suc 0) x = (if x < 0 then ''-'' else '''') @ showNat (roundHalfUp (\<bar>x\<bar> * 10) div 10)
      @ ''.'' @ [digitChar (roundHalfUp (\<bar>x\<bar> * 10) mod 10)]"
proof -
  define n where "n = roundHalfUp (\<bar>x\<bar> * 10)"
  have n0: "0 \<le> n" unfolding n_def roundHalfUp_def by simp
  have "(let m = showNat n; m' = replicate (1 + 1 - length m) CHR ''0'' @ m; k = length m'
         in take (k - 1) m' @ ''.'' @ drop (k - 1) m')
        = showNat (n div 10) @ ''.'' @ [digitChar (n mod 10)]"
  proof (cases "n < 10")
    case True
    then have "showNat n = [digitChar n]" by (subst showNat.simps) simp
    moreover have "showNat (n div 10) = [digitChar 0]" using True n0 by (subst showNat.simps) simp
    moreover have "digitChar 0 = CHR ''0''" by (simp add: digitChar_def)
    ultimately show ?thesis using True n0 by (simp add: Let_def)
  next
    case False
    then have "showNat n = showNat (n div 10) @ [digitChar (n mod 10)]"
      by (subst showNat.simps) simp
    moreover have "length (showNat (n div 10)) \<ge> 1"
      using showNat_nonempty[of "n div 10"] by (cases "showNat (n div 10)") auto
    ultimately show ?thesis by (simp add: Let_def)
  qed
  then show ?thesis
    by (simp add: toFixed_def Let_def n_def)
qed

lemma scanDecimal_toFixed1: "scanDecimal (toFixed (Suc 0) x) = Some (round1 x, [])"
proof -
  define n where "n = roundHalfUp (\<bar>x\<bar> * 10)"
  define a where "a = showNat (n div 10)"
  define d where "d = digitChar (n mod 10)"
  have n0: "0 \<le> n" unfolding n_def roundHalfUp_def by simp
  have tf: "toFixed (Suc 0) x = (if x < 0 then ''-'' else '''') @ a @ [CHR ''.'', d]"
    by (simp add: toFixed1_eq a_def d_def n_def)
  obtain c cs where a_eq: "a = c # cs" and c: "isDigit c"
    using showNat_hd[of "n div 10"] unfolding a_def by blast
  have c_sign: "c \<noteq> CHR ''-''" "c \<noteq> CHR ''+''"
    using c by (auto simp: isDigit_def)
  have alld: "\<forall>c \<in> set a. isDigit c" unfolding a_def by (rule showNat_all_digits)
  have dot: "\<not> isDigit CHR ''.''" by (simp add: isDigit_def)
  have tw: "takeWhile isDigit (a @ [CHR ''.'', d]) = a"
    using alld dot by (simp add: takeWhile_append2)
  have dw: "dropWhile isDigit (a @ [CHR ''.'', d]) = [CHR ''.'', d]"
    using alld dot by (simp add: dropWhile_append2)
  have dd: "isDigit d" "digitVal d = n mod 10" unfolding d_def by (simp_all add: digitChar_props)
  have ss: "scanSign (toFixed (Suc 0) x) = ((if x < 0 then - 1 else 1), a @ [CHR ''.'', d])"
    using c_sign by (simp add: tf scanSign_def a_eq)
  have va: "digitsVal a = n div 10" unfolding a_def using n0 by (simp add: digitsVal_showNat)
  have vd: "digitsVal [d] = n mod 10" by (simp add: digitsVal_def dd)
  have ane: "a \<noteq> []" by (simp add: a_eq)
  have "scanDecimal (toFixed (Suc 0) x) =
        Some ((if x < 0 then - 1 else 1) * (of_int (n div 10) + of_int (n mod 10) / 10), [])"
    unfolding scanDecimal_def ss
    by (simp add: tw dw dd va vd ane scanExponent_def Let_def)
  moreover have "(of_int (n div 10) + of_int (n mod 10) / 10 :: rat) = of_int n / 10"
  proof -
    have "n = n div 10 * 10 + n mod 10" by simp
    then have "(of_int n :: rat) = of_int (n div 10 * 10 + n mod 10)" by (rule arg_cong)
    also have "\<dots> = of_int (n div 10) * 10 + of_int (n mod 10)"
      by (simp only: of_int_add of_int_mult of_int_numeral)
    finally show ?thesis by simp
  qed
  moreover have "round1 x = (if x < 0 then - 1 else 1) * (of_int n / 10)"
    by (simp add: round1_def n_def)
  ultimately show ?thesis by simp
qed

lemma toFixed1_no_space:
  "trimStart (toFixed (Suc 0) x) = toFixed (Suc 0) x"
  "str_trim (toFixed (Suc 0) x) = toFixed (Suc 0) x"
proof -
  define n where "n = roundHalfUp (\<bar>x\<bar> * 10)"
  define a where "a = showNat (n div 10)"
  define d where "d = digitChar (n mod 10)"
  have tf: "toFixed (Suc 0) x = (if x < 0 then ''-'' else '''') @ a @ [CHR ''.'', d]"
    by (simp add: toFixed1_eq a_def d_def n_def)
  obtain c cs where a_eq: "a = c # cs" and c: "isDigit c"
    using showNat_hd[of "n div 10"] unfolding a_def by blast
  have c_sp: "\<not> isSpace c" using c by (auto simp: isDigit_def isSpace_def)
  have d_sp: "\<not> isSpace d" unfolding d_def by (simp add: digitChar_props)
  have m_sp: "\<not> isSpace CHR ''-''" by (simp add: isSpace_def)
  show 1: "trimStart (toFixed (Suc 0) x) = toFixed (Suc 0) x"
    using c_sp m_sp by (simp add: tf trimStart_def a_eq)
  have 2: "dropWhile isSpace (toFixed (Suc 0) x) = toFixed (Suc 0) x"
    using 1 by (simp add: trimStart_def)
  have 3: "rev (toFixed (Suc 0) x) = d # rev ((if x < 0 then ''-'' else '''') @ a @ ''.'')"
    by (simp add: tf)
  show "str_trim (toFixed (Suc 0) x) = toFixed (Suc 0) x"
    unfolding str_trim_def 2 unfolding 3 using d_sp by (simp add: tf)
qed

text \<open>\<open>parseFloat(x.toFixed(1))\<close> and \<open>Number(x.toFixed(1))\<close> are the double nearest to
  \<open>x\<close> rounded to one decimal: this is what \<open>pushBrokerage\<close> and \<open>makeMetrics\<close> store.\<close>

lemma parseFloat_toFixed1: "parseFloat (toFixed 1 x) = Num (toDouble (round1 x))"
  by (simp add: parseFloat_def toFixed1_no_space scanDecimal_toFixed1)

lemma stringToNumber_toFixed_Suc0:
  "stringToNumber (toFixed (Suc 0) x) = Num (toDouble (round1 x))"
proof -
  have "toFixed (Suc 0) x \<noteq> []" by (simp add: toFixed1_eq)
  then show ?thesis
    by (simp add: stringToNumber_def toFixed1_no_space scanDecimal_toFixed1)
qed

lemma stringToNumber_toFixed1: "stringToNumber (toFixed 1 x) = Num (toDouble (round1 x))"
  by (simp add: stringToNumber_toFixed_Suc0)

lemma isNaN_simps:
  "isNaN (Num x) = False" "isNaN NaN = True" "isNaN Undefined = True"
  "isNaN (Str (toFixed 1 y)) = False"
  by (simp_all add: isNaN_def stringToNumber_toFixed_Suc0)

lemma not_TypeError_is_result:
  fixes x :: "error + 'a"
  assumes "x \<noteq> Inl TypeError"
  shows "\<exists>res. x = Inr res"
proof (cases x)
  case (Inl e)
  with assms show ?thesis by (cases e) simp
next
  case (Inr res)
  then show ?thesis by blast
qed

subsection \<open>Schema detection\<close>

text \<open>Once the market-share column is 8 or 12, the generic pass over the cells never
  changes it: its guard requires a column that is neither.\<close>

lemma scanCell_marketShare_locked:
  assumes "marketShareColIndex cm = 8 \<or> marketShareColIndex cm = 12"
  shows "marketShareColIndex (scanCell j c cm) = marketShareColIndex cm"
proof (cases c)
  case (Str s)
  show ?thesis
  proof (cases "s = []")
    case True
    with Str show ?thesis by (simp add: scanCell_def)
  next
    case False
    with Str assms show ?thesis
      by (auto simp add: scanCell_def Let_def if_distrib[where f = marketShareColIndex])
  qed
qed (simp_all add: scanCell_def)

lemma scanCells_marketShare_locked:
  "marketShareColIndex cm = 8 \<or> marketShareColIndex cm = 12 \<Longrightarrow>
   marketShareColIndex (scanCells j cs cm) = marketShareColIndex cm"
proof (induction cs arbitrary: j cm)
  case Nil
  then show ?case by simp
next
  case (Cons c cs)
  have "marketShareColIndex (scanCell j c cm) = marketShareColIndex cm"
    using Cons.prems by (rule scanCell_marketShare_locked)
  with Cons show ?case by simp
qed

lemma checkColumnI_cases:
  "marketShareColIndex (checkColumnI r cm) = 8 \<or>
   marketShareColIndex (checkColumnI r cm) = marketShareColIndex cm"
  by (simp add: checkColumnI_def split: jsval.split)

lemma checkColumnM_cases:
  "marketShareColIndex (checkColumnM r cm) = 12 \<or>
   marketShareColIndex (checkColumnM r cm) = marketShareColIndex cm"
  by (simp add: checkColumnM_def split: jsval.split)

lemma checkColumnM_keeps_8:
  "marketShareColIndex cm = 8 \<Longrightarrow> marketShareColIndex (checkColumnM r cm) = 8"
  by (simp add: checkColumnM_def)

lemma scanRow_marketShare_range:
  assumes "marketShareColIndex cm = 8 \<or> marketShareColIndex cm = 12"
  shows "marketShareColIndex (scanRow r cm) = 8 \<or> marketShareColIndex (scanRow r cm) = 12"
proof -
  have 1: "marketShareColIndex (checkColumnI r cm) = 8
        \<or> marketShareColIndex (checkColumnI r cm) = 12"
    using checkColumnI_cases[of r cm] assms by auto
  have 2: "marketShareColIndex (checkColumnM r (checkColumnI r cm)) = 8
        \<or> marketShareColIndex (checkColumnM r (checkColumnI r cm)) = 12"
    using checkColumnM_cases[of r "checkColumnI r cm"] 1 by auto
  show ?thesis unfolding scanRow_def
    using scanCells_marketShare_locked[OF 2] 2 by simp
qed

lemma scanRow_keeps_8:
  assumes "marketShareColIndex cm = 8"
  shows "marketShareColIndex (scanRow r cm) = 8"
proof -
  have 1: "marketShareColIndex (checkColumnI r cm) = 8"
    using checkColumnI_cases[of r cm] assms by auto
  have 2: "marketShareColIndex (checkColumnM r (checkColumnI r cm)) = 8"
    using 1 by (rule checkColumnM_keeps_8)
  show ?thesis unfolding scanRow_def
    using scanCells_marketShare_locked[of "checkColumnM r (checkColumnI r cm)"] 2 by simp
qed

lemma scanRow_mkt_percent:
  assumes "cellAt r 8 = Str s" and "toLowerCase s = ''mkt %''"
  shows "marketShareColIndex (scanRow r cm) = 8"
proof -
  have len: "8 < length r" using assms(1) by (auto simp: cellAt_def split: if_splits)
  then have r8: "r ! 8 = Str s" using assms(1) by (simp add: cellAt_def)
  have "s \<noteq> []" using assms(2) by (auto simp: toLowerCase_def)
  then have 1: "marketShareColIndex (checkColumnI r cm) = 8"
    using len r8 assms(2) by (simp add: checkColumnI_def isMktPercentHeader_def)
  have 2: "marketShareColIndex (checkColumnM r (checkColumnI r cm)) = 8"
    using 1 by (rule checkColumnM_keeps_8)
  show ?thesis unfolding scanRow_def
    using scanCells_marketShare_locked[of "checkColumnM r (checkColumnI r cm)"] 2 by simp
qed

lemma fold_scanRow_range:
  "marketShareColIndex cm = 8 \<or> marketShareColIndex cm = 12 \<Longrightarrow>
   marketShareColIndex (fold scanRow rs cm) = 8 \<or> marketShareColIndex (fold scanRow rs cm) = 12"
proof (induction rs arbitrary: cm)
  case Nil
  then show ?case by simp
next
  case (Cons r rs)
  from scanRow_marketShare_range[OF Cons.prems, of r] Cons.IH[of "scanRow r cm"]
  show ?case by simp
qed

lemma fold_scanRow_keeps_8:
  "marketShareColIndex cm = 8 \<Longrightarrow> marketShareColIndex (fold scanRow rs cm) = 8"
proof (induction rs arbitrary: cm)
  case Nil
  then show ?case by simp
next
  case (Cons r rs)
  from scanRow_keeps_8[OF Cons.prems, of r] Cons.IH[of "scanRow r cm"]
  show ?case by simp
qed

text \<open>
  Claim C7. When some row among the first ten holds the text \<open>Mkt %\<close>, in any letter case, at
  column index 8, the schema detection selects index 8 as the market-share column, whatever
  the cells at index 12 (or any other cell of the scanned rows) hold.
\<close>

theorem mkt_percent_selects_column_8:
  assumes "i < 10" and "i < length data"
    and "cellAt (data ! i) 8 = Str s" and "toLowerCase s = ''mkt %''"
  shows "marketShareColIndex (detectColumns data) = 8"
proof -
  let ?rows = "take 10 data"
  have i: "i < length ?rows" using assms(1,2) by simp
  have ri: "?rows ! i = data ! i" using assms(1) by simp
  have split: "?rows = take i ?rows @ (data ! i) # drop (Suc i) ?rows"
    using id_take_nth_drop[OF i] ri by simp
  define cm0 where "cm0 = fold scanRow (take i ?rows) defaultColumns"
  have "marketShareColIndex (scanRow (data ! i) cm0) = 8"
    using assms(3,4) by (rule scanRow_mkt_percent)
  then have "marketShareColIndex (fold scanRow (drop (Suc i) ?rows) (scanRow (data ! i) cm0)) = 8"
    by (rule fold_scanRow_keeps_8)
  moreover have "detectColumns data
      = fold scanRow (drop (Suc i) ?rows) (scanRow (data ! i) cm0)"
    unfolding detectColumns_def cm0_def by (subst split) (simp del: take_take drop_take)
  ultimately show ?thesis by simp
qed

text \<open>An instance: the first row names the volume column at index 12, the second row has
  \<open>MKT %\<close> at index 8.\<close>

theorem mkt_percent_selects_column_8_witness:
  "cellAt (sheetBothHeaders ! 0) 12 = Str ''$ Vol Per Prod Agent''
   \<and> cellAt (sheetBothHeaders ! 1) 8 = Str ''MKT %''
   \<and> toLowerCase ''MKT %'' = ''mkt %''
   \<and> marketShareColIndex (detectColumns sheetBothHeaders) = 8"
proof -
  have a: "cellAt (sheetBothHeaders ! 0) 12 = Str ''$ Vol Per Prod Agent''" by code_simp
  have b: "cellAt (sheetBothHeaders ! 1) 8 = Str ''MKT %''" by code_simp
  have c: "toLowerCase ''MKT %'' = ''mkt %''" by code_simp
  have d: "(1::nat) < 10" "1 < length sheetBothHeaders" by (simp_all add: sheetBothHeaders_def)
  from mkt_percent_selects_column_8[OF d b c] a b c show ?thesis by simp
qed

text \<open>The market-share column is always 8 or 12: the generic header tests of the inner loop
  never take effect, because the column starts at 12.\<close>

theorem market_share_column_is_8_or_12:
  "marketShareColIndex (detectColumns data) = 8 \<or> marketShareColIndex (detectColumns data) = 12"
  unfolding detectColumns_def
  by (rule fold_scanRow_range) (simp add: defaultColumns_def)

text \<open>
  Claim C5. It says that a header matching a generic market-share rule at column \<open>j\<close>, with no
  match of the two priority rules, sets the market-share column to \<open>j\<close>. The comment in the
  source says the same (\<open>Only consider other market share columns if we haven't already
  found one of our expected ones\<close>), but the guard \<open>marketShareColIndex !== 8 &&
  marketShareColIndex !== 12\<close> is false from the start, the default being 12. On a sheet whose
  header row has \<open>Market Share (%)\<close> at index 2 the column stays 12, and the data row, which
  has three cells, is dropped.
\<close>

theorem generic_market_share_header_ignored:
  "isMarketShareHeader (toLowerCase ''Market Share (%)'')
   \<and> marketShareColIndex (detectColumns sheetGeneric) = 12
   \<and> acceptedShares sheetGeneric = []"
  by code_simp

subsection \<open>Row extraction\<close>

lemma pushBrokerage_Num:
  "pushBrokerage b (Num x) st =
     Inr (st\<lparr>brokerages := brokerages st @
            [\<lparr>brand = str_trim (toString b), marketShare = toDouble (round1 x)\<rparr>]\<rparr>)"
  by (simp add: pushBrokerage_def isNaN_simps parseFloat_toFixed1 del: One_nat_def)

lemma pushBrokerage_toFixed: "pushBrokerage b (Str (toFixed 1 y)) st = Inl TypeError"
  using isNaN_simps(4)[of y] by (simp add: pushBrokerage_def)

lemma rescaleMarketShare_cases:
  "rescaleMarketShare (Num x) =
     (if 1000 < x then Str (toFixed 1 (toDouble (x / 1000))) else Num x)"
  "rescaleMarketShare NaN = NaN" "rescaleMarketShare Undefined = Undefined"
  by (simp_all add: rescaleMarketShare_def isNaN_simps)

lemma pushBrokerage_metrics:
  assumes "pushBrokerage b ms st = Inr st'"
  shows "totalSales st' = totalSales st \<and> avgPrice st' = avgPrice st
     \<and> daysOnMarket st' = daysOnMarket st \<and> pricePerSqft st' = pricePerSqft st
     \<and> closedListRatio st' = closedListRatio st \<and> totalOffices st' = totalOffices st
     \<and> contributingAgents st' = contributingAgents st"
  using assms by (auto simp: pushBrokerage_def split: if_splits jsval.splits)

text \<open>A row that is long enough and has a brand reaches the last statement of the loop
  body.\<close>

lemma processRow_accepted:
  assumes "max (brandColIndex cm) (marketShareColIndex cm) < int (length r)"
    and "truthy (cellAt r (brandColIndex cm))"
  shows "processRow cm r st =
     pushBrokerage (cellAt r (brandColIndex cm))
       (rescaleMarketShare (coerceMarketShare (cellAt r (marketShareColIndex cm))))
       (if str_includes (toLowerCase (toString (cellAt r (brandColIndex cm)))) ''sotheby'' \<and>
           max (max (totalSalesColIndex cm) (avgPriceColIndex cm)) (domColIndex cm)
             < int (length r)
        then extractMetrics cm r st else st)"
proof -
  have "\<not> int (length r) \<le> max (brandColIndex cm) (marketShareColIndex cm)"
    using assms(1) by linarith
  then show ?thesis
    unfolding processRow_def Let_def using assms(2)
    by (simp only: if_False if_True not_not simp_thms)
qed




text \<open>
  Claim C10. The metrics of the subject are read only from a row that is longer than the
  largest of the total-sales, average-price and days-on-market columns. A row whose brand
  contains \<open>sotheby\<close> but that is not longer than that leaves all seven metrics as they were,
  also those whose columns lie inside the row; if the row is long enough for the brand and
  market-share columns and its share is a number, it still adds its record to the ranking.
\<close>

theorem short_subject_row_leaves_metrics:
  assumes "str_includes (toLowerCase (toString (cellAt r (brandColIndex cm)))) ''sotheby''"
    and "int (length r) \<le> max (max (totalSalesColIndex cm) (avgPriceColIndex cm)) (domColIndex cm)"
    and "processRow cm r st = Inr st'"
  shows "(totalSales st' = totalSales st \<and> avgPrice st' = avgPrice st
     \<and> daysOnMarket st' = daysOnMarket st \<and> pricePerSqft st' = pricePerSqft st
     \<and> closedListRatio st' = closedListRatio st \<and> totalOffices st' = totalOffices st
     \<and> contributingAgents st' = contributingAgents st)
     \<and> (max (brandColIndex cm) (marketShareColIndex cm) < int (length r)
          \<and> truthy (cellAt r (brandColIndex cm))
          \<and> rescaleMarketShare (coerceMarketShare (cellAt r (marketShareColIndex cm))) = Num x
        \<longrightarrow> brokerages st' = brokerages st @
              [\<lparr>brand = str_trim (toString (cellAt r (brandColIndex cm))),
                marketShare = toDouble (round1 x)\<rparr>])"
proof (cases "max (brandColIndex cm) (marketShareColIndex cm) < int (length r)
              \<and> truthy (cellAt r (brandColIndex cm))")
  case True
  moreover have "\<not> max (max (totalSalesColIndex cm) (avgPriceColIndex cm)) (domColIndex cm)
                   < int (length r)"
    using assms(2) by linarith
  ultimately have "processRow cm r st =
     pushBrokerage (cellAt r (brandColIndex cm))
       (rescaleMarketShare (coerceMarketShare (cellAt r (marketShareColIndex cm)))) st"
    by (simp only: processRow_accepted simp_thms if_False)
  with assms(3) have p: "pushBrokerage (cellAt r (brandColIndex cm))
       (rescaleMarketShare (coerceMarketShare (cellAt r (marketShareColIndex cm)))) st = Inr st'"
    by simp
  from pushBrokerage_metrics[OF p] p show ?thesis
    by (auto simp: pushBrokerage_Num)
next
  case False
  then have "processRow cm r st = Inr st"
    by (auto simp: processRow_def Let_def)
  with assms(3) False show ?thesis by auto
qed

text \<open>An instance: a subject row of nine cells with a sales count of 321 in column G. The
  total stays 0, and the record with the share 15.6 (as a double) is added.\<close>

theorem short_subject_row_leaves_metrics_witness:
  "cellAt subjectShortRow (totalSalesColIndex columnsI) = Num 321
   \<and> (\<exists>st'. processRow columnsI subjectShortRow initialLocals = Inr st'
         \<and> totalSales st' = 0 \<and> avgPrice st' = 0 \<and> daysOnMarket st' = 0 \<and> pricePerSqft st' = 0
         \<and> closedListRatio st' = 0 \<and> totalOffices st' = 0 \<and> contributingAgents st' = 0
         \<and> brokerages st' = [\<lparr>brand = ''Sotheby's Realty'', marketShare = toDouble (78 / 5)\<rparr>])"
proof -
  have c: "cellAt subjectShortRow (totalSalesColIndex columnsI) = Num 321" by code_simp
  have h1: "str_includes (toLowerCase (toString (cellAt subjectShortRow (brandColIndex columnsI))))
              ''sotheby''"
    by code_simp
  have h2: "int (length subjectShortRow)
            \<le> max (max (totalSalesColIndex columnsI) (avgPriceColIndex columnsI))
                (domColIndex columnsI)"
    by code_simp
  have ne: "processRow columnsI subjectShortRow initialLocals \<noteq> Inl TypeError" by code_simp
  then obtain st' where h3: "processRow columnsI subjectShortRow initialLocals = Inr st'"
    using not_TypeError_is_result by blast
  have g: "max (brandColIndex columnsI) (marketShareColIndex columnsI) < int (length subjectShortRow)
          \<and> truthy (cellAt subjectShortRow (brandColIndex columnsI))
          \<and> rescaleMarketShare (coerceMarketShare
               (cellAt subjectShortRow (marketShareColIndex columnsI))) = Num (toDouble (78 / 5))"
    by code_simp
  have e: "brokerages initialLocals @
             [\<lparr>brand = str_trim (toString (cellAt subjectShortRow (brandColIndex columnsI))),
               marketShare = toDouble (round1 (toDouble (78 / 5)))\<rparr>]
           = [\<lparr>brand = ''Sotheby's Realty'', marketShare = toDouble (78 / 5)\<rparr>]"
    by code_simp
  have z: "totalSales initialLocals = 0" "avgPrice initialLocals = 0"
    "daysOnMarket initialLocals = 0" "pricePerSqft initialLocals = 0"
    "closedListRatio initialLocals = 0" "totalOffices initialLocals = 0"
    "contributingAgents initialLocals = 0"
    by (simp_all add: initialLocals_def)
  from short_subject_row_leaves_metrics[OF h1 h2 h3, of "toDouble (78 / 5)"] g
  have "totalSales st' = 0 \<and> avgPrice st' = 0 \<and> daysOnMarket st' = 0 \<and> pricePerSqft st' = 0
         \<and> closedListRatio st' = 0 \<and> totalOffices st' = 0 \<and> contributingAgents st' = 0
         \<and> brokerages st' = [\<lparr>brand = ''Sotheby's Realty'', marketShare = toDouble (78 / 5)\<rparr>]"
    unfolding z e by blast
  with c h3 show ?thesis by blast
qed

text \<open>The only exception of the row loop is the one of a share above 1000: every accepted
  row with such a share throws, and a sheet without one is processed to the end, whatever
  else is wrong with its rows.\<close>

lemma coerceMarketShare_cases:
  "(\<exists>x. coerceMarketShare v = Num x) \<or> coerceMarketShare v = NaN
   \<or> coerceMarketShare v = Undefined"
  by (cases v) (auto simp: coerceMarketShare_def parseFloat_def split: option.splits)

lemma processRow_small_share:
  assumes "\<forall>x. coerceMarketShare (cellAt r (marketShareColIndex cm)) = Num x \<longrightarrow> x \<le> 1000"
  shows "\<exists>st'. processRow cm r st = Inr st'"
proof (cases "max (brandColIndex cm) (marketShareColIndex cm) < int (length r)
              \<and> truthy (cellAt r (brandColIndex cm))")
  case True
  let ?c = "coerceMarketShare (cellAt r (marketShareColIndex cm))"
  from coerceMarketShare_cases[of "cellAt r (marketShareColIndex cm)"]
  consider x where "?c = Num x" | "?c = NaN" | "?c = Undefined" by blast
  then show ?thesis
  proof cases
    case 1
    with assms have "x \<le> 1000" by simp
    with 1 True show ?thesis
      by (simp add: processRow_accepted rescaleMarketShare_cases pushBrokerage_Num)
  next
    case 2
    with True show ?thesis
      by (simp add: processRow_accepted rescaleMarketShare_cases pushBrokerage_def isNaN_simps)
  next
    case 3
    with True show ?thesis
      by (simp add: processRow_accepted rescaleMarketShare_cases pushBrokerage_def isNaN_simps)
  qed
next
  case False
  then have "processRow cm r st = Inr st"
    by (auto simp: processRow_def Let_def)
  then show ?thesis by blast
qed

lemma processRows_small_shares:
  assumes "\<forall>r \<in> set rs. \<forall>x. coerceMarketShare (cellAt r (marketShareColIndex cm)) = Num x
             \<longrightarrow> x \<le> 1000"
  shows "\<exists>st'. processRows cm rs st = Inr st'"
  using assms
proof (induction rs arbitrary: st)
  case Nil
  then show ?case by simp
next
  case (Cons r rs)
  then obtain st1 where "processRow cm r st = Inr st1"
    using processRow_small_share[of r cm st] by auto
  with Cons show ?case by simp
qed

theorem extraction_returns_without_large_share:
  assumes "\<forall>r \<in> set (drop 1 data). \<forall>x.
             coerceMarketShare (cellAt r (marketShareColIndex (detectColumns data))) = Num x
             \<longrightarrow> x \<le> 1000"
  shows "\<exists>res. extractMarketShareData data = Inr res"
proof -
  obtain st where "processRows (detectColumns data) (drop 1 data) initialLocals = Inr st"
    using processRows_small_shares[OF assms] by blast
  then show ?thesis by (simp add: extractMarketShareData_def)
qed

text \<open>An instance: a sheet with a row without brand, a row with the share \<open>n/a\<close>, a row of two
  cells and one valid row.\<close>

theorem extraction_returns_without_large_share_witness:
  "\<exists>res. extractMarketShareData sheetMalformed = Inr res"
proof -
  have c: "marketShareColIndex (detectColumns sheetMalformed) = 8" by code_simp
  have d: "drop 1 sheetMalformed =
     [mktRow '''' (Str ''11.0%''), mktRow ''Acme Realty'' (Str ''n/a''),
      [Str '''', Str ''Short Row Realty''], mktRow ''HomeSmart'' (Str ''9.0%'')]"
    by (simp add: sheetMalformed_def)
  have v: "coerceMarketShare (cellAt (mktRow '''' (Str ''11.0%'')) 8) = Num 11"
    "coerceMarketShare (cellAt (mktRow ''Acme Realty'' (Str ''n/a'')) 8) = NaN"
    "coerceMarketShare (cellAt [Str '''', Str ''Short Row Realty''] 8) = Undefined"
    "coerceMarketShare (cellAt (mktRow ''HomeSmart'' (Str ''9.0%'')) 8) = Num 9"
    by code_simp+
  have "\<forall>r \<in> set (drop 1 sheetMalformed). \<forall>x.
          coerceMarketShare (cellAt r (marketShareColIndex (detectColumns sheetMalformed))) = Num x
          \<longrightarrow> x \<le> 1000"
    unfolding c d by (simp add: v)
  from extraction_returns_without_large_share[OF this] show ?thesis .
qed

text \<open>Conversely, every row that reaches the end of the loop body with a share above 1000
  throws.\<close>

theorem share_above_1000_throws:
  assumes "max (brandColIndex cm) (marketShareColIndex cm) < int (length r)"
    and "truthy (cellAt r (brandColIndex cm))"
    and "coerceMarketShare (cellAt r (marketShareColIndex cm)) = Num x"
    and "1000 < x"
  shows "processRow cm r st = Inl TypeError"
  using assms(3,4)
  by (simp add: processRow_accepted[OF assms(1,2)] rescaleMarketShare_cases pushBrokerage_toFixed
      del: One_nat_def)

theorem share_above_1000_throws_witness:
  "processRow defaultColumns (volRow ''Acme Realty'' (Str ''$1,560'')) initialLocals = Inl TypeError"
proof -
  let ?r = "volRow ''Acme Realty'' (Str ''$1,560'')"
  have 1: "max (brandColIndex defaultColumns) (marketShareColIndex defaultColumns) < int (length ?r)"
    by code_simp
  have 2: "truthy (cellAt ?r (brandColIndex defaultColumns))" by code_simp
  have 3: "coerceMarketShare (cellAt ?r (marketShareColIndex defaultColumns)) = Num 1560"
    by code_simp
  have 4: "(1000::rat) < 1560" by simp
  from share_above_1000_throws[OF 1 2 3 4] show ?thesis .
qed

text \<open>
  Claim C1. It says that a share above 1000 is divided by 1000, rounded to one decimal, and
  kept as the share of the row's record, the call completing normally. The source does
  compute the rescaled value, but as \<open>(marketShare / 1000).toFixed(1)\<close>, a string; the last
  statement of the loop body then calls \<open>marketShare.toFixed(1)\<close> on that string, which throws
  a \<open>TypeError\<close>. On a sheet of the older format with the raw value 1560 in column M the
  rescaled value is the string \<open>1.6\<close> and the call ends with the exception.
\<close>

theorem rescaled_share_row_throws:
  "rescaleMarketShare (coerceMarketShare (Num 1560)) = Str ''1.6''
   \<and> extractMarketShareData sheetRescaled = Inl TypeError"
  by code_simp

text \<open>
  Claim C2. It says that no malformed row makes the function raise. Rows without a brand,
  with a share that is not a number, or too short are skipped, but a row whose share is above
  1000 ends the call with the \<open>TypeError\<close> of claim C1, and the rows after it are not
  processed: the sheet below has a valid row after the row with the share \<open>1,560\<close>.
\<close>

theorem out_of_range_row_aborts_extraction:
  "extractMarketShareData sheetOutOfRange = Inl TypeError
   \<and> acceptedShares sheetMalformed = [9]"
  by code_simp

subsection \<open>The ranked result\<close>

lemma sortByShare_sorted: "sorted_wrt (\<lambda>a b. marketShare b \<le> marketShare a) (sortByShare bs)"
proof -
  have "sorted (map (\<lambda>b. - marketShare b) (sortByShare bs))"
    unfolding sortByShare_def by (rule sorted_sort_key)
  then show ?thesis by (simp add: sorted_map)
qed

lemma makeResult_ranked:
  "length (labels (makeResult st)) = length (dataValues (makeResult st))
   \<and> length (labels (makeResult st)) \<le> 10
   \<and> sorted_wrt (\<lambda>x y. y \<le> x) (dataValues (makeResult st))"
proof -
  let ?bs = "rankBrokerages (brokerages st)"
  have "sorted_wrt (\<lambda>a b. marketShare b \<le> marketShare a) ?bs"
    unfolding rankBrokerages_def by (rule sortByShare_sorted)
  then have "sorted_wrt (\<lambda>a b. marketShare b \<le> marketShare a) (take 10 ?bs)"
    by (rule sorted_wrt_take)
  then have "sorted_wrt (\<lambda>x y. y \<le> x) (map marketShare (take 10 ?bs))"
    by (simp add: sorted_wrt_map)
  then show ?thesis by (simp add: makeResult_def Let_def)
qed

lemma extract_Inr:
  assumes "extractMarketShareData data = Inr res"
  shows "\<exists>st. processRows (detectColumns data) (drop 1 data) initialLocals = Inr st
            \<and> res = makeResult st"
  using assms by (auto simp: extractMarketShareData_def split: sum.splits)

text \<open>
  Claim C6. Whenever the function returns a result, the labels and the values have the same
  length, that length is at most 10, and the values are non-increasing.
\<close>

theorem ranked_output_invariant:
  assumes "extractMarketShareData data = Inr res"
  shows "length (labels res) = length (dataValues res)
     \<and> length (labels res) \<le> 10
     \<and> sorted_wrt (\<lambda>x y. y \<le> x) (dataValues res)"
  using extract_Inr[OF assms] makeResult_ranked by blast

theorem ranked_output_invariant_witness:
  "\<exists>res. extractMarketShareData sheetGap = Inr res
     \<and> length (labels res) = length (dataValues res)
     \<and> length (labels res) \<le> 10
     \<and> sorted_wrt (\<lambda>x y. y \<le> x) (dataValues res)"
proof -
  have "extractMarketShareData sheetGap \<noteq> Inl TypeError" by code_simp
  then obtain res where r: "extractMarketShareData sheetGap = Inr res"
    using not_TypeError_is_result by blast
  from ranked_output_invariant[OF r] r show ?thesis by blast
qed

text \<open>The renaming pass and the two sorts keep the shares: the values of the result are the
  ten largest accepted shares, largest first (and there are none when the function throws).\<close>

lemma marketShare_renameBrand: "marketShare (renameBrand b) = marketShare b"
  by (simp add: renameBrand_def Let_def)

lemma mset_shares_rank:
  "mset (map marketShare (rankBrokerages bs)) = mset (map marketShare bs)"
proof -
  have s: "mset (map marketShare (sortByShare xs)) = mset (map marketShare xs)" for xs
    by (simp add: sortByShare_def)
  have r: "map marketShare (map renameBrand xs) = map marketShare xs" for xs
    by (induction xs) (simp_all add: marketShare_renameBrand)
  have "mset (map marketShare (rankBrokerages bs))
        = mset (map marketShare (map renameBrand (sortByShare bs)))"
    unfolding rankBrokerages_def by (rule s)
  also have "\<dots> = mset (map marketShare (sortByShare bs))" by (simp only: r)
  also have "\<dots> = mset (map marketShare bs)" by (rule s)
  finally show ?thesis .
qed

lemma shares_rank_eq: "map marketShare (rankBrokerages bs) = rev (sort (map marketShare bs))"
proof -
  let ?ys = "rev (map marketShare (rankBrokerages bs))"
  have "sorted_wrt (\<lambda>a b. marketShare b \<le> marketShare a) (rankBrokerages bs)"
    unfolding rankBrokerages_def by (rule sortByShare_sorted)
  then have "sorted_wrt (\<lambda>x y. y \<le> x) (map marketShare (rankBrokerages bs))"
    by (simp add: sorted_wrt_map)
  then have "sorted ?ys" by (simp add: sorted_wrt_rev)
  moreover have "mset ?ys = mset (map marketShare bs)" by (simp only: mset_rev mset_shares_rank)
  ultimately have "sort (map marketShare bs) = ?ys" by (rule properties_for_sort[rotated])
  then show ?thesis by simp
qed

text \<open>The values of the ranked output are the ten largest accepted shares, in
  non-increasing order.\<close>

theorem ranked_values_are_top10_of_accepted:
  "rankedValues data = take 10 (rev (sort (acceptedShares data)))"
proof (cases "processRows (detectColumns data) (drop 1 data) initialLocals")
  case (Inl e)
  then show ?thesis by (simp add: rankedValues_def acceptedShares_def extractMarketShareData_def)
next
  case (Inr st)
  have "map marketShare (take 10 (rankBrokerages (brokerages st)))
        = take 10 (rev (sort (map marketShare (brokerages st))))"
    by (simp only: take_map[symmetric] shares_rank_eq)
  with Inr show ?thesis
    by (simp add: rankedValues_def acceptedShares_def extractMarketShareData_def makeResult_def
        Let_def)
qed

lemma floor_half: "\<lfloor>1 / 2 :: rat\<rfloor> = 0"
  by (simp add: floor_eq_iff)

text \<open>
  Claim C9. With no data row after the header (at most one row in all) the function returns
  a result, not a failure: the labels and the values are empty, every metric has its initial
  value 0 (the average price being the formatted amount \<open>$0\<close>), and the two optional fields
  are absent.
\<close>

theorem no_data_rows_default_result:
  assumes "length data \<le> 1"
  shows "\<exists>res. extractMarketShareData data = Inr res \<and> labels res = [] \<and> dataValues res = []
     \<and> additionalMetrics res =
         \<lparr>am_totalSales = 0, am_averagePrice = ''$0'', am_daysOnMarket = 0, am_totalOffices = 0,
          am_contributingAgents = 0, am_pricePerSqft = None, am_closedListRatio = None\<rparr>"
proof -
  have d: "drop (Suc 0) data = []" using assms by simp
  have r0: "roundHalfUp 0 = 0" by (simp add: roundHalfUp_def floor_half)
  have s0: "showNat 0 = ''0''" by (subst showNat.simps) (simp add: digitChar_def)
  have m: "makeMetrics initialLocals =
         \<lparr>am_totalSales = 0, am_averagePrice = ''$0'', am_daysOnMarket = 0, am_totalOffices = 0,
          am_contributingAgents = 0, am_pricePerSqft = None, am_closedListRatio = None\<rparr>"
    by (simp add: makeMetrics_def initialLocals_def formatCurrency_def groupThousands_def
        round1_def r0 s0 stringToNumber_toFixed_Suc0 toDouble_zero)
  have "extractMarketShareData data = Inr (makeResult initialLocals)"
    by (simp add: extractMarketShareData_def d del: drop_eq_Nil drop_eq_Nil2)
  moreover have "labels (makeResult initialLocals) = []" "dataValues (makeResult initialLocals) = []"
    by (simp_all add: makeResult_def Let_def initialLocals_def rankBrokerages_def sortByShare_def)
  moreover have "additionalMetrics (makeResult initialLocals) = makeMetrics initialLocals"
    by (simp add: makeResult_def Let_def)
  ultimately show ?thesis using m by simp
qed

theorem no_data_rows_default_result_witness:
  "\<exists>res. extractMarketShareData [mktRow ''Brand'' (Str ''Mkt %'')] = Inr res
     \<and> labels res = [] \<and> dataValues res = []
     \<and> additionalMetrics res =
         \<lparr>am_totalSales = 0, am_averagePrice = ''$0'', am_daysOnMarket = 0, am_totalOffices = 0,
          am_contributingAgents = 0, am_pricePerSqft = None, am_closedListRatio = None\<rparr>"
proof -
  have "length [mktRow ''Brand'' (Str ''Mkt %'')] \<le> 1" by simp
  from no_data_rows_default_result[OF this] show ?thesis .
qed

text \<open>
  Claim C3. It says that the top-3 figure of the insights is the sum of the three largest
  shares divided by the sum of all accepted shares, times 100. The sibling function
  \<open>generateTemplateInsights\<close> of \<open>analysisTemplates.js\<close>, whose sentences the page displays
  in place of these, divides by the total; \<open>extractMarketShareData\<close> builds the same sentence
  from the sum alone. With the accepted shares 30, 20, 10 and 5 its summary reports 60.0,
  where the formula gives \<open>60 / 65 * 100\<close>, that is 92.3.
\<close>

theorem top3_reports_raw_sum:
  "acceptedShares sheetTop3 = [30, 20, 10, 5]
   \<and> summaryOf sheetTop3 ! 3 = ''Top 3 brokerages control 60.0% of the market''
   \<and> toFixed 1 (spec_top3Concentration (acceptedShares sheetTop3)) = ''92.3''
   \<and> summaryOf sheetTop3 ! 3 \<noteq>
       ''Top 3 brokerages control '' @ toFixed 1 (spec_top3Concentration (acceptedShares sheetTop3))
         @ ''% of the market''"
  by code_simp

text \<open>
  Claim C4. It says that the gap is taken against the highest-ranked record that is not the
  subject, whichever brand it is; \<open>generateTemplateInsights\<close> does so. \<open>extractMarketShareData\<close>
  takes it against the record labelled \<open>HomeSmart\<close> and still calls that record the nearest
  competitor. With the subject at 15.6, Realty ONE Group at 12.0 and HomeSmart at 9.0 the
  summary reports a gap of 6.6, where the gap to the runner-up is 3.6; and with the subject
  at 15.6 behind Realty ONE Group at 20.0 and no HomeSmart row it reports no gap but a
  leading position, where the gap is -4.4.
\<close>

theorem gap_reports_HomeSmart_difference:
  "rankedLabels sheetGap = [sothebysLabel, ''Realty ONE Group'', ''HomeSmart'']
   \<and> rankedValues sheetGap = [toDouble (78 / 5), 12, 9]
   \<and> summaryOf sheetGap ! 1 =
       ''6.6 percentage points ahead of nearest competitor (HomeSmart at 9.0%)''
   \<and> toFixed 1 (spec_gap (rankedLabels sheetGap) (rankedValues sheetGap)) = ''3.6''
   \<and> rankedLabels sheetNoHomeSmart = [''Realty ONE Group'', sothebysLabel]
   \<and> rankedValues sheetNoHomeSmart = [20, toDouble (78 / 5)]
   \<and> summaryOf sheetNoHomeSmart ! 1 = ''Leading position in the market''
   \<and> toFixed 1 (spec_gap (rankedLabels sheetNoHomeSmart) (rankedValues sheetNoHomeSmart))
       = ''-4.4''"
  by code_simp

end
